theory Spec2Isabelle
  imports Main "HOL-Library.Sublist"
begin

section \<open>The module \<open>one_clicks_info\<close>: listing 1-Click applications\<close>

text \<open>
  The embedding follows \<^verbatim>\<open>plugins/modules/one_clicks_info.py\<close>. The module imports two
  libraries, builds an API client, issues one list request and reports the catalog,
  optionally filtered by type, through the host's \<^verbatim>\<open>exit_json\<close> and \<^verbatim>\<open>fail_json\<close>.
\<close>

subsection \<open>Data\<close>

text \<open>
  Values decoded from the remote service's JSON. A catalog entry is a Python dict, here an
  association list from keys to values; \<^verbatim>\<open>d.get(k)\<close> is the lookup, with \<open>None\<close>
  for Python's \<^verbatim>\<open>None\<close> when the key is absent.
\<close>

datatype json =
    JNull
  | JBool bool
  | JInt int
  | JStr string
  | JArr "json list"
  | JObj "(string \<times> json) list"

type_synonym entry = "(string \<times> json) list"

text \<open>
  The decoded body of the list response is a dict too; the module reads one key of it,
  \<^verbatim>\<open>"1_clicks"\<close>, whose value is the sequence of entries.
\<close>

type_synonym response = "(string \<times> entry list) list"

definition dict_get :: "(string \<times> 'v) list \<Rightarrow> string \<Rightarrow> 'v option" where
  "dict_get d k = map_of d k"

text \<open>
  An exception object: the name of its class, the names of the classes that class
  inherits from, and the attributes that the handler of \<^verbatim>\<open>present\<close> reads once it
  has caught the exception: \<^verbatim>\<open>err.error\<close>, \<^verbatim>\<open>err.status_code\<close> and
  \<^verbatim>\<open>err.reason\<close>. The attribute \<^verbatim>\<open>err.error\<close> is the error body that the library
  decoded from the response, an object with a \<^verbatim>\<open>message\<close>, or \<^verbatim>\<open>None\<close> when the
  response carried no such body.
\<close>

record error_object =
  message :: string

record exc =
  exc_class :: string
  exc_bases :: "string list"
  err_error :: "error_object option"
  status_code :: int
  reason :: string

text \<open>
  \<^verbatim>\<open>except C\<close> matches an exception whose class is \<^verbatim>\<open>C\<close> or inherits from it.
\<close>

definition isinstance :: "exc \<Rightarrow> string \<Rightarrow> bool" where
  "isinstance e cls = (cls \<in> set (exc_class e # exc_bases e))"

text \<open>
  What the call \<^verbatim>\<open>self.client.one_clicks.list()\<close> does: it returns the decoded body
  or raises an exception.
\<close>

datatype reply =
    Returns response
  | Raises exc

text \<open>The dict \<^verbatim>\<open>error\<close> built by the handler, with its three keys.\<close>

record error_dict =
  Message :: string
  Status_Code :: int
  Reason :: string

text \<open>
  The keyword arguments handed to \<^verbatim>\<open>exit_json\<close> and \<^verbatim>\<open>fail_json\<close>. A keyword that
  a call does not pass is \<open>None\<close>.
\<close>

record result =
  changed :: "bool option"
  msg :: string
  one_clicks :: "entry list option"
  error :: "error_dict option"
  exception :: "string option"

text \<open>
  Both \<^verbatim>\<open>exit_json\<close> and \<^verbatim>\<open>fail_json\<close> end the process (they raise
  \<^verbatim>\<open>SystemExit\<close>, which no handler of the module catches), so the first of them that
  is reached is the outcome of the run. An exception that nothing catches ends the run
  without a result.
\<close>

datatype outcome =
    Exit_json result
  | Fail_json result
  | Uncaught string

text \<open>The parameters of the invocation, \<^verbatim>\<open>module.params\<close>, as the host validated them.\<close>

record params =
  p_token :: "string option"
  p_state :: "string option"
  p_type :: "string option"

record client =
  client_token :: "string option"

text \<open>The object \<^verbatim>\<open>self\<close> of class \<^verbatim>\<open>OneClickApplicationsInformation\<close>.\<close>

record self =
  self_module :: params
  self_client :: client
  self_state :: "string option"
  self_type :: "string option"

text \<open>
  The world outside the module: what the remote catalog endpoint answers to a list
  request, and the log of what the module did to its collaborators.
\<close>

datatype event =
    Client_constructed "string option"
  | List_requested

record world =
  list_reply :: reply
  events :: "event list"

subsection \<open>Python's \<^verbatim>\<open>str.capitalize\<close>\<close>

text \<open>
  The first character in upper case, the others in lower case. The embedding covers the
  ASCII letters; every other character is left as it is.
\<close>

definition upper :: "char \<Rightarrow> char" where
  "upper c = (let n = (of_char c :: nat) in if 97 \<le> n \<and> n \<le> 122 then char_of (n - 32) else c)"

definition lower :: "char \<Rightarrow> char" where
  "lower c = (let n = (of_char c :: nat) in if 65 \<le> n \<and> n \<le> 90 then char_of (n + 32) else c)"

fun capitalize :: "string \<Rightarrow> string" where
  "capitalize [] = []"
| "capitalize (c # cs) = upper c # map lower cs"

subsection \<open>The collaborators\<close>

text \<open>\<^verbatim>\<open>Client(token=...)\<close>: constructing the API client.\<close>

definition Client :: "string option \<Rightarrow> world \<Rightarrow> client \<times> world" where
  "Client tok w = (\<lparr>client_token = tok\<rparr>, w\<lparr>events := events w @ [Client_constructed tok]\<rparr>)"

text \<open>\<^verbatim>\<open>client.one_clicks.list()\<close>: one read-only request to the catalog endpoint.\<close>

definition one_clicks_list :: "client \<Rightarrow> world \<Rightarrow> reply \<times> world" where
  "one_clicks_list c w = (list_reply w, w\<lparr>events := events w @ [List_requested]\<rparr>)"

subsection \<open>The class \<^verbatim>\<open>OneClickApplicationsInformation\<close>\<close>

text \<open>
  The filter of lines 141 to 143: \<^verbatim>\<open>val.get("type") == click_type\<close> holds when the
  entry has the key and its value is the string \<^verbatim>\<open>click_type\<close>.
\<close>

definition filtered_clicks :: "string \<Rightarrow> entry list \<Rightarrow> entry list" where
  "filtered_clicks click_type clicks =
     filter (\<lambda>val. dict_get val ''type'' = Some (JStr click_type)) clicks"

text \<open>
  The method \<^verbatim>\<open>present\<close>. The tests \<^verbatim>\<open>if one_clicks\<close> and \<^verbatim>\<open>if click_type\<close> are
  Python's truth tests: \<^verbatim>\<open>None\<close>, the empty list and the empty string are false.
  \<^verbatim>\<open>self.type.capitalize()\<close> raises \<^verbatim>\<open>AttributeError\<close> when \<^verbatim>\<open>self.type\<close> is
  \<^verbatim>\<open>None\<close>. The handler \<^verbatim>\<open>except HttpResponseError\<close> lets every other exception
  pass; inside it, \<^verbatim>\<open>err.error.message\<close> raises \<^verbatim>\<open>AttributeError\<close> when
  \<^verbatim>\<open>err.error\<close> is \<^verbatim>\<open>None\<close>.
\<close>

definition present :: "self \<Rightarrow> world \<Rightarrow> outcome \<times> world" where
  "present slf w =
     (case one_clicks_list (self_client slf) w of (rep, w') \<Rightarrow>
       (case rep of
          Returns one_clicks_info \<Rightarrow>
            (case dict_get one_clicks_info ''1_clicks'' of
               None \<Rightarrow>
                 Fail_json \<lparr>changed = Some False, msg = ''Current 1-Click applications not found'',
                   one_clicks = None, error = None, exception = None\<rparr>
             | Some clicks \<Rightarrow>
                 if clicks \<noteq> [] then
                   (case p_type (self_module slf) of
                      None \<Rightarrow>
                        Exit_json \<lparr>changed = Some False, msg = ''Current 1-Click applications'',
                          one_clicks = Some clicks, error = None, exception = None\<rparr>
                    | Some click_type \<Rightarrow>
                        if click_type \<noteq> [] then
                          (case self_type slf of
                             None \<Rightarrow> Uncaught ''AttributeError''
                           | Some ty \<Rightarrow>
                               Exit_json \<lparr>changed = Some False,
                                 msg = ''Current '' @ capitalize ty @ '' 1-Click applications'',
                                 one_clicks = Some (filtered_clicks click_type clicks),
                                 error = None, exception = None\<rparr>)
                        else
                          Exit_json \<lparr>changed = Some False, msg = ''Current 1-Click applications'',
                            one_clicks = Some clicks, error = None, exception = None\<rparr>)
                 else
                   Fail_json \<lparr>changed = Some False, msg = ''Current 1-Click applications not found'',
                     one_clicks = None, error = None, exception = None\<rparr>)
        | Raises err \<Rightarrow>
            if isinstance err ''HttpResponseError'' then
              (case err_error err of
                 None \<Rightarrow> Uncaught ''AttributeError''
               | Some body \<Rightarrow>
                   (let err_dict = \<lparr>Message = message body, Status_Code = status_code err,
                                   Reason = reason err\<rparr>
                    in Fail_json \<lparr>changed = Some False, msg = Message err_dict,
                         one_clicks = None, error = Some err_dict, exception = None\<rparr>))
            else Uncaught (exc_class err),
        w'))"

text \<open>
  The constructor. It returns no outcome when \<^verbatim>\<open>state\<close> is not \<^verbatim>\<open>"present"\<close>: then
  neither \<^verbatim>\<open>exit_json\<close> nor \<^verbatim>\<open>fail_json\<close> is called.
\<close>

definition OneClickApplicationsInformation :: "params \<Rightarrow> world \<Rightarrow> outcome option \<times> world" where
  "OneClickApplicationsInformation module w =
     (case Client (p_token module) w of (c, w1) \<Rightarrow>
        (let slf = \<lparr>self_module = module, self_client = c,
                    self_state = p_state module, self_type = p_type module\<rparr>
         in if self_state slf = Some ''present''
            then (case present slf w1 of (out, w2) \<Rightarrow> (Some out, w2))
            else (None, w1)))"

subsection \<open>The imports and \<^verbatim>\<open>main\<close>\<close>

text \<open>
  The two guarded imports at the head of the module set four globals: whether the
  library was imported, and the traceback text when it was not.
\<close>

datatype import_result = Imported | ImportError string

record globals =
  HAS_AZURE_LIBRARY :: bool
  AZURE_LIBRARY_IMPORT_ERROR :: "string option"
  HAS_PYDO_LIBRARY :: bool
  PYDO_LIBRARY_IMPORT_ERROR :: "string option"

definition import_libraries :: "import_result \<Rightarrow> import_result \<Rightarrow> globals" where
  "import_libraries azure pydo =
     \<lparr>HAS_AZURE_LIBRARY = (azure = Imported),
      AZURE_LIBRARY_IMPORT_ERROR = (case azure of Imported \<Rightarrow> None | ImportError tb \<Rightarrow> Some tb),
      HAS_PYDO_LIBRARY = (pydo = Imported),
      PYDO_LIBRARY_IMPORT_ERROR = (case pydo of Imported \<Rightarrow> None | ImportError tb \<Rightarrow> Some tb)\<rparr>"

text \<open>
  \<^verbatim>\<open>main\<close>, after the host has built and validated the module's parameters. The host's
  helper \<^verbatim>\<open>missing_required_lib\<close>, which writes the message for a library that is
  not there, is a parameter.
\<close>

definition main :: "(string \<Rightarrow> string) \<Rightarrow> globals \<Rightarrow> params \<Rightarrow> world \<Rightarrow> outcome option \<times> world" where
  "main missing_required_lib g module w =
     (if \<not> HAS_AZURE_LIBRARY g then
        (Some (Fail_json \<lparr>changed = None, msg = missing_required_lib ''azure.core.exceptions'',
           one_clicks = None, error = None, exception = AZURE_LIBRARY_IMPORT_ERROR g\<rparr>), w)
      else if \<not> HAS_PYDO_LIBRARY g then
        (Some (Fail_json \<lparr>changed = None, msg = missing_required_lib ''pydo'',
           one_clicks = None, error = None, exception = PYDO_LIBRARY_IMPORT_ERROR g\<rparr>), w)
      else OneClickApplicationsInformation module w)"


section \<open>Properties\<close>

subsection \<open>Auxiliary facts\<close>

lemma capitalize_droplet: "capitalize ''droplet'' = ''Droplet''"
  by code_simp

lemma capitalize_kubernetes: "capitalize ''kubernetes'' = ''Kubernetes''"
  by code_simp

lemma present_world: "snd (present slf w) = w\<lparr>events := events w @ [List_requested]\<rparr>"
  by (simp add: present_def one_clicks_list_def)

lemma present_Returns:
  "list_reply w = Returns info \<Longrightarrow>
   fst (present slf w) =
     (case dict_get info ''1_clicks'' of
        None \<Rightarrow> Fail_json \<lparr>changed = Some False, msg = ''Current 1-Click applications not found'',
                   one_clicks = None, error = None, exception = None\<rparr>
      | Some clicks \<Rightarrow>
          if clicks = [] then
            Fail_json \<lparr>changed = Some False, msg = ''Current 1-Click applications not found'',
              one_clicks = None, error = None, exception = None\<rparr>
          else (case p_type (self_module slf) of
              None \<Rightarrow> Exit_json \<lparr>changed = Some False, msg = ''Current 1-Click applications'',
                          one_clicks = Some clicks, error = None, exception = None\<rparr>
            | Some click_type \<Rightarrow>
                if click_type = [] then
                  Exit_json \<lparr>changed = Some False, msg = ''Current 1-Click applications'',
                    one_clicks = Some clicks, error = None, exception = None\<rparr>
                else (case self_type slf of
                    None \<Rightarrow> Uncaught ''AttributeError''
                  | Some ty \<Rightarrow>
                      Exit_json \<lparr>changed = Some False,
                        msg = ''Current '' @ capitalize ty @ '' 1-Click applications'',
                        one_clicks = Some (filtered_clicks click_type clicks),
                        error = None, exception = None\<rparr>)))"
  by (simp add: present_def one_clicks_list_def split: option.splits)

lemma present_Raises:
  "list_reply w = Raises err \<Longrightarrow> isinstance err ''HttpResponseError'' \<Longrightarrow>
   err_error err = Some body \<Longrightarrow>
   fst (present slf w) =
     Fail_json \<lparr>changed = Some False, msg = message body, one_clicks = None,
       error = Some \<lparr>Message = message body, Status_Code = status_code err,
                     Reason = reason err\<rparr>,
       exception = None\<rparr>"
  by (simp add: present_def one_clicks_list_def)

text \<open>
  An exception that the handler does not match leaves \<open>present\<close>; one that it matches but
  that has no error body makes the handler itself raise.
\<close>

lemma present_Raises_other:
  "list_reply w = Raises err \<Longrightarrow> \<not> isinstance err ''HttpResponseError'' \<Longrightarrow>
   fst (present slf w) = Uncaught (exc_class err)"
  by (simp add: present_def one_clicks_list_def)

lemma present_Raises_no_body:
  "list_reply w = Raises err \<Longrightarrow> isinstance err ''HttpResponseError'' \<Longrightarrow>
   err_error err = None \<Longrightarrow>
   fst (present slf w) = Uncaught ''AttributeError''"
  by (simp add: present_def one_clicks_list_def)

subsection \<open>A non-empty catalog with a type filter\<close>

text \<open>
  Claim C1. When the list call returns a non-empty catalog and the filter is one of the
  two valid types, \<open>droplet\<close> or \<open>kubernetes\<close>, \<open>present\<close> ends in \<open>exit_json\<close> with
  \<open>changed\<close> false, with \<open>one_clicks\<close> the entries of the catalog whose \<open>type\<close> is
  the filter (in the catalog's order, possibly none), and with the message
  \<open>Current Droplet 1-Click applications\<close> or \<open>Current Kubernetes 1-Click applications\<close>,
  the filter capitalized.
\<close>

theorem present_filtered_valid_type:
  assumes "list_reply w = Returns info"
    and "dict_get info ''1_clicks'' = Some catalog"
    and "catalog \<noteq> []"
    and "click_type = ''droplet'' \<or> click_type = ''kubernetes''"
    and "p_type (self_module slf) = Some click_type"
    and "self_type slf = Some click_type"
  shows "fst (present slf w) =
           Exit_json \<lparr>changed = Some False,
             msg = ''Current '' @ capitalize click_type @ '' 1-Click applications'',
             one_clicks = Some (filter (\<lambda>e. dict_get e ''type'' = Some (JStr click_type)) catalog),
             error = None, exception = None\<rparr> \<and>
         capitalize click_type = (if click_type = ''droplet'' then ''Droplet'' else ''Kubernetes'')"
proof -
  have nonempty: "click_type \<noteq> []"
    using assms(4) by auto
  have cap: "capitalize click_type = (if click_type = ''droplet'' then ''Droplet'' else ''Kubernetes'')"
    using assms(4)
    by (auto simp add: capitalize_droplet capitalize_kubernetes simp del: capitalize.simps)
  have "fst (present slf w) =
           Exit_json \<lparr>changed = Some False,
             msg = ''Current '' @ capitalize click_type @ '' 1-Click applications'',
             one_clicks = Some (filter (\<lambda>e. dict_get e ''type'' = Some (JStr click_type)) catalog),
             error = None, exception = None\<rparr>"
    using assms(2,3,5,6) nonempty
    by (simp add: present_Returns [OF assms(1)] filtered_clicks_def del: capitalize.simps)
  with cap show ?thesis
    by (simp del: capitalize.simps)
qed

text \<open>The example of the specification: two entries, the filter \<open>kubernetes\<close>.\<close>

theorem present_filtered_valid_type_witness:
  "fst (present
      \<lparr>self_module = \<lparr>p_token = Some ''t0'', p_state = Some ''present'', p_type = Some ''kubernetes''\<rparr>,
       self_client = \<lparr>client_token = Some ''t0''\<rparr>,
       self_state = Some ''present'', self_type = Some ''kubernetes''\<rparr>
      \<lparr>list_reply = Returns [(''1_clicks'',
          [[(''slug'', JStr ''netdata''), (''type'', JStr ''kubernetes'')],
           [(''slug'', JStr ''cpanel''), (''type'', JStr ''droplet'')]])],
       events = []\<rparr>) =
   Exit_json \<lparr>changed = Some False, msg = ''Current Kubernetes 1-Click applications'',
     one_clicks = Some [[(''slug'', JStr ''netdata''), (''type'', JStr ''kubernetes'')]],
     error = None, exception = None\<rparr>"
  using present_filtered_valid_type
    [of "\<lparr>list_reply = Returns [(''1_clicks'',
          [[(''slug'', JStr ''netdata''), (''type'', JStr ''kubernetes'')],
           [(''slug'', JStr ''cpanel''), (''type'', JStr ''droplet'')]])],
       events = []\<rparr>"
      "[(''1_clicks'',
          [[(''slug'', JStr ''netdata''), (''type'', JStr ''kubernetes'')],
           [(''slug'', JStr ''cpanel''), (''type'', JStr ''droplet'')]])]"
      "[[(''slug'', JStr ''netdata''), (''type'', JStr ''kubernetes'')],
        [(''slug'', JStr ''cpanel''), (''type'', JStr ''droplet'')]]"
      "''kubernetes''"
      "\<lparr>self_module = \<lparr>p_token = Some ''t0'', p_state = Some ''present'', p_type = Some ''kubernetes''\<rparr>,
        self_client = \<lparr>client_token = Some ''t0''\<rparr>,
        self_state = Some ''present'', self_type = Some ''kubernetes''\<rparr>"]
  by (simp add: dict_get_def del: capitalize.simps)


subsection \<open>A non-empty catalog and no filter\<close>

text \<open>
  Claim C2. When the list call returns a non-empty catalog and no type filter is given,
  \<open>present\<close> ends in \<open>exit_json\<close> with \<open>changed\<close> false, with \<open>one_clicks\<close> the
  whole catalog as it came, and with the message \<open>Current 1-Click applications\<close>.
\<close>

theorem present_unfiltered:
  assumes "list_reply w = Returns info"
    and "dict_get info ''1_clicks'' = Some catalog"
    and "catalog \<noteq> []"
    and "p_type (self_module slf) = None"
  shows "fst (present slf w) =
           Exit_json \<lparr>changed = Some False, msg = ''Current 1-Click applications'',
             one_clicks = Some catalog, error = None, exception = None\<rparr>"
  using assms(2-4) by (simp add: present_Returns [OF assms(1)])

theorem present_unfiltered_witness:
  "fst (present
      \<lparr>self_module = \<lparr>p_token = Some ''t0'', p_state = Some ''present'', p_type = None\<rparr>,
       self_client = \<lparr>client_token = Some ''t0''\<rparr>,
       self_state = Some ''present'', self_type = None\<rparr>
      \<lparr>list_reply = Returns [(''1_clicks'',
          [[(''slug'', JStr ''netdata''), (''type'', JStr ''kubernetes'')],
           [(''slug'', JStr ''cpanel''), (''type'', JStr ''droplet'')]])],
       events = []\<rparr>) =
   Exit_json \<lparr>changed = Some False, msg = ''Current 1-Click applications'',
     one_clicks = Some [[(''slug'', JStr ''netdata''), (''type'', JStr ''kubernetes'')],
                        [(''slug'', JStr ''cpanel''), (''type'', JStr ''droplet'')]],
     error = None, exception = None\<rparr>"
  using present_unfiltered
    [of "\<lparr>list_reply = Returns [(''1_clicks'',
          [[(''slug'', JStr ''netdata''), (''type'', JStr ''kubernetes'')],
           [(''slug'', JStr ''cpanel''), (''type'', JStr ''droplet'')]])],
       events = []\<rparr>"
      "[(''1_clicks'',
          [[(''slug'', JStr ''netdata''), (''type'', JStr ''kubernetes'')],
           [(''slug'', JStr ''cpanel''), (''type'', JStr ''droplet'')]])]"
      "[[(''slug'', JStr ''netdata''), (''type'', JStr ''kubernetes'')],
        [(''slug'', JStr ''cpanel''), (''type'', JStr ''droplet'')]]"
      "\<lparr>self_module = \<lparr>p_token = Some ''t0'', p_state = Some ''present'', p_type = None\<rparr>,
        self_client = \<lparr>client_token = Some ''t0''\<rparr>,
        self_state = Some ''present'', self_type = None\<rparr>"]
  by (simp add: dict_get_def)

subsection \<open>An empty catalog\<close>

text \<open>
  Claim C3. When the list call returns a catalog with no entry, \<open>present\<close> ends in
  \<open>fail_json\<close> with the fixed message \<open>Current 1-Click applications not found\<close> and
  without an \<open>error\<close> keyword, whatever the object's fields are: with a filter or
  without one.
\<close>

theorem present_empty_catalog:
  assumes "list_reply w = Returns info"
    and "dict_get info ''1_clicks'' = Some []"
  shows "fst (present slf w) =
           Fail_json \<lparr>changed = Some False, msg = ''Current 1-Click applications not found'',
             one_clicks = None, error = None, exception = None\<rparr>"
  using assms(2) by (simp add: present_Returns [OF assms(1)])

theorem present_empty_catalog_witness:
  "fst (present
      \<lparr>self_module = \<lparr>p_token = Some ''t0'', p_state = Some ''present'', p_type = Some ''droplet''\<rparr>,
       self_client = \<lparr>client_token = Some ''t0''\<rparr>,
       self_state = Some ''present'', self_type = Some ''droplet''\<rparr>
      \<lparr>list_reply = Returns [(''1_clicks'', [])], events = []\<rparr>) =
   Fail_json \<lparr>changed = Some False, msg = ''Current 1-Click applications not found'',
     one_clicks = None, error = None, exception = None\<rparr>"
  using present_empty_catalog
    [of "\<lparr>list_reply = Returns [(''1_clicks'', [])], events = []\<rparr>" "[(''1_clicks'', [])]"
      "\<lparr>self_module = \<lparr>p_token = Some ''t0'', p_state = Some ''present'', p_type = Some ''droplet''\<rparr>,
        self_client = \<lparr>client_token = Some ''t0''\<rparr>,
        self_state = Some ''present'', self_type = Some ''droplet''\<rparr>"]
  by (simp add: dict_get_def)

subsection \<open>A filter that matches no entry\<close>

text \<open>
  Claim C4. When the catalog is not empty and no entry of it has the filter as its
  \<open>type\<close>, \<open>present\<close> ends in \<open>exit_json\<close> with an empty \<open>one_clicks\<close>; this outcome
  differs from the failure that the same object meets on an empty catalog.
\<close>

theorem present_filter_matches_nothing:
  assumes "list_reply w = Returns info"
    and "dict_get info ''1_clicks'' = Some catalog"
    and "catalog \<noteq> []"
    and "click_type \<noteq> []"
    and "p_type (self_module slf) = Some click_type"
    and "self_type slf = Some click_type"
    and "\<forall>e \<in> set catalog. dict_get e ''type'' \<noteq> Some (JStr click_type)"
  shows "fst (present slf w) =
           Exit_json \<lparr>changed = Some False,
             msg = ''Current '' @ capitalize click_type @ '' 1-Click applications'',
             one_clicks = Some [], error = None, exception = None\<rparr> \<and>
         fst (present slf w) \<noteq>
           fst (present slf (w\<lparr>list_reply := Returns [(''1_clicks'', [])]\<rparr>))"
proof -
  have none: "filtered_clicks click_type catalog = []"
    using assms(7) by (simp add: filtered_clicks_def)
  have ok: "fst (present slf w) =
           Exit_json \<lparr>changed = Some False,
             msg = ''Current '' @ capitalize click_type @ '' 1-Click applications'',
             one_clicks = Some [], error = None, exception = None\<rparr>"
    using assms(2-6) none
    by (simp add: present_Returns [OF assms(1)] del: capitalize.simps)
  have "list_reply (w\<lparr>list_reply := Returns [(''1_clicks'', [])]\<rparr>) = Returns [(''1_clicks'', [])]"
    by simp
  from present_Returns [OF this, of slf]
  have "fst (present slf (w\<lparr>list_reply := Returns [(''1_clicks'', [])]\<rparr>)) =
          Fail_json \<lparr>changed = Some False, msg = ''Current 1-Click applications not found'',
            one_clicks = None, error = None, exception = None\<rparr>"
    by (simp add: dict_get_def)
  with ok show ?thesis
    by (simp del: capitalize.simps)
qed

theorem present_filter_matches_nothing_witness:
  "fst (present
      \<lparr>self_module = \<lparr>p_token = Some ''t0'', p_state = Some ''present'', p_type = Some ''kubernetes''\<rparr>,
       self_client = \<lparr>client_token = Some ''t0''\<rparr>,
       self_state = Some ''present'', self_type = Some ''kubernetes''\<rparr>
      \<lparr>list_reply = Returns [(''1_clicks'', [[(''slug'', JStr ''cpanel''), (''type'', JStr ''droplet'')]])],
       events = []\<rparr>) =
   Exit_json \<lparr>changed = Some False, msg = ''Current Kubernetes 1-Click applications'',
     one_clicks = Some [], error = None, exception = None\<rparr>"
  using present_filter_matches_nothing
    [of "\<lparr>list_reply = Returns [(''1_clicks'', [[(''slug'', JStr ''cpanel''), (''type'', JStr ''droplet'')]])],
          events = []\<rparr>"
      "[(''1_clicks'', [[(''slug'', JStr ''cpanel''), (''type'', JStr ''droplet'')]])]"
      "[[(''slug'', JStr ''cpanel''), (''type'', JStr ''droplet'')]]"
      "''kubernetes''"
      "\<lparr>self_module = \<lparr>p_token = Some ''t0'', p_state = Some ''present'', p_type = Some ''kubernetes''\<rparr>,
        self_client = \<lparr>client_token = Some ''t0''\<rparr>,
        self_state = Some ''present'', self_type = Some ''kubernetes''\<rparr>"]
  by (simp add: dict_get_def capitalize_kubernetes del: capitalize.simps)

subsection \<open>An error of the list call\<close>

text \<open>
  Claim C5, as it is written, speaks of every error that the list call raises. The handler
  of \<open>present\<close> names one class, \<open>HttpResponseError\<close>. The exception that the library
  raises when the connection cannot be made, \<open>ServiceRequestError\<close>, neither is that class
  nor inherits from it: it passes the handler, and the run ends with the exception and no
  result.
\<close>

theorem present_other_exception_counterexample:
  "fst (present
      \<lparr>self_module = \<lparr>p_token = Some ''t0'', p_state = Some ''present'', p_type = None\<rparr>,
       self_client = \<lparr>client_token = Some ''t0''\<rparr>,
       self_state = Some ''present'', self_type = None\<rparr>
      \<lparr>list_reply = Raises \<lparr>exc_class = ''ServiceRequestError'',
                              exc_bases = [''AzureError'', ''Exception'', ''BaseException'', ''object''],
                              err_error = None, status_code = 0, reason = []\<rparr>,
       events = []\<rparr>) =
   Uncaught ''ServiceRequestError''"
  by (simp add: present_def one_clicks_list_def isinstance_def)

text \<open>
  Claim C5, amended. When the list call raises an exception that is an instance of
  \<open>HttpResponseError\<close>, of the class itself or of a class that inherits from it, and the
  exception carries an error body, \<open>present\<close> ends in \<open>fail_json\<close> with \<open>changed\<close>
  false, with an \<open>error\<close> dict that holds the body's message, the status code and the
  reason, and with that message as \<open>msg\<close>.
\<close>

theorem present_http_response_error:
  assumes "list_reply w = Raises err"
    and "isinstance err ''HttpResponseError''"
    and "err_error err = Some body"
  shows "fst (present slf w) =
           Fail_json \<lparr>changed = Some False, msg = message body, one_clicks = None,
             error = Some \<lparr>Message = message body, Status_Code = status_code err,
                           Reason = reason err\<rparr>,
             exception = None\<rparr>"
  by (rule present_Raises [OF assms])

text \<open>
  A response with status 401: the library raises \<open>ClientAuthenticationError\<close>, which
  inherits from \<open>HttpResponseError\<close>.
\<close>

theorem present_http_response_error_witness:
  "fst (present
      \<lparr>self_module = \<lparr>p_token = Some ''t0'', p_state = Some ''present'', p_type = None\<rparr>,
       self_client = \<lparr>client_token = Some ''t0''\<rparr>,
       self_state = Some ''present'', self_type = None\<rparr>
      \<lparr>list_reply = Raises \<lparr>exc_class = ''ClientAuthenticationError'',
                              exc_bases = [''HttpResponseError'', ''AzureError'', ''Exception'',
                                           ''BaseException'', ''object''],
                              err_error = Some \<lparr>message = ''Unable to authenticate you''\<rparr>,
                              status_code = 401, reason = ''Unauthorized''\<rparr>,
       events = []\<rparr>) =
   Fail_json \<lparr>changed = Some False, msg = ''Unable to authenticate you'', one_clicks = None,
     error = Some \<lparr>Message = ''Unable to authenticate you'', Status_Code = 401,
                   Reason = ''Unauthorized''\<rparr>,
     exception = None\<rparr>"
  using present_http_response_error
    [of "\<lparr>list_reply = Raises \<lparr>exc_class = ''ClientAuthenticationError'',
                              exc_bases = [''HttpResponseError'', ''AzureError'', ''Exception'',
                                           ''BaseException'', ''object''],
                              err_error = Some \<lparr>message = ''Unable to authenticate you''\<rparr>,
                              status_code = 401, reason = ''Unauthorized''\<rparr>,
          events = []\<rparr>"
      "\<lparr>exc_class = ''ClientAuthenticationError'',
        exc_bases = [''HttpResponseError'', ''AzureError'', ''Exception'', ''BaseException'', ''object''],
        err_error = Some \<lparr>message = ''Unable to authenticate you''\<rparr>,
        status_code = 401, reason = ''Unauthorized''\<rparr>"
      "\<lparr>message = ''Unable to authenticate you''\<rparr>"
      "\<lparr>self_module = \<lparr>p_token = Some ''t0'', p_state = Some ''present'', p_type = None\<rparr>,
        self_client = \<lparr>client_token = Some ''t0''\<rparr>,
        self_state = Some ''present'', self_type = None\<rparr>"]
  by (simp add: isinstance_def)

subsection \<open>Repeated invocations\<close>

text \<open>
  The outcome of a run depends on the world only through the answer of the catalog
  endpoint, and a run leaves that answer as it was.
\<close>

lemma present_reply_only:
  "list_reply w' = list_reply w \<Longrightarrow> fst (present slf w') = fst (present slf w)"
  by (simp add: present_def one_clicks_list_def)

lemma OneClickApplicationsInformation_fst:
  "fst (OneClickApplicationsInformation module w) =
     (if p_state module = Some ''present''
      then Some (fst (present \<lparr>self_module = module, self_client = \<lparr>client_token = p_token module\<rparr>,
                    self_state = p_state module, self_type = p_type module\<rparr>
                    (w\<lparr>events := events w @ [Client_constructed (p_token module)]\<rparr>)))
      else None)"
  by (simp add: OneClickApplicationsInformation_def Client_def split_beta)

lemma OneClickApplicationsInformation_snd:
  "snd (OneClickApplicationsInformation module w) =
     (if p_state module = Some ''present''
      then w\<lparr>events := events w @ [Client_constructed (p_token module), List_requested]\<rparr>
      else w\<lparr>events := events w @ [Client_constructed (p_token module)]\<rparr>)"
  by (simp add: OneClickApplicationsInformation_def Client_def split_beta present_world)

lemma OneClickApplicationsInformation_reply_only:
  assumes "list_reply w' = list_reply w"
  shows "fst (OneClickApplicationsInformation module w') = fst (OneClickApplicationsInformation module w)"
proof -
  let ?slf = "\<lparr>self_module = module, self_client = \<lparr>client_token = p_token module\<rparr>,
              self_state = p_state module, self_type = p_type module\<rparr>"
  have eq: "fst (present ?slf (w'\<lparr>events := events w' @ [Client_constructed (p_token module)]\<rparr>)) =
        fst (present ?slf (w\<lparr>events := events w @ [Client_constructed (p_token module)]\<rparr>))"
    by (rule present_reply_only) (simp add: assms)
  show ?thesis
    by (simp only: OneClickApplicationsInformation_fst eq)
qed

lemma OneClickApplicationsInformation_list_reply:
  "list_reply (snd (OneClickApplicationsInformation module w)) = list_reply w"
  by (simp add: OneClickApplicationsInformation_snd)

lemma main_reply_only:
  assumes "list_reply w' = list_reply w"
  shows "fst (main mrl g module w') = fst (main mrl g module w)"
  using OneClickApplicationsInformation_reply_only [OF assms, of module]
  unfolding main_def by simp

lemma main_list_reply: "list_reply (snd (main mrl g module w)) = list_reply w"
  by (simp add: main_def OneClickApplicationsInformation_list_reply)

text \<open>
  Claim C7. For fixed globals and parameters, a second invocation that follows the first
  on the same catalog has the outcome of the first; an invocation does not change what
  the endpoint answers, and its outcome does not depend on what was done before.
\<close>

theorem main_idempotent:
  "fst (main missing_required_lib g module (snd (main missing_required_lib g module w))) =
     fst (main missing_required_lib g module w) \<and>
   list_reply (snd (main missing_required_lib g module w)) = list_reply w \<and>
   fst (main missing_required_lib g module (w\<lparr>events := es\<rparr>)) =
     fst (main missing_required_lib g module w)"
proof (intro conjI)
  show "fst (main missing_required_lib g module (snd (main missing_required_lib g module w))) =
     fst (main missing_required_lib g module w)"
    by (rule main_reply_only) (rule main_list_reply)
  show "list_reply (snd (main missing_required_lib g module w)) = list_reply w"
    by (rule main_list_reply)
  show "fst (main missing_required_lib g module (w\<lparr>events := es\<rparr>)) =
     fst (main missing_required_lib g module w)"
    by (rule main_reply_only) simp
qed


subsection \<open>A library that is not there\<close>

text \<open>
  Claim C8. When \<open>azure.core.exceptions\<close> or \<open>pydo\<close> could not be imported, \<open>main\<close>
  ends in \<open>fail_json\<close> and leaves the world as it was: no client was constructed and no
  list request was sent. The message is the one the host's helper writes for the first
  library that is missing, and it contains that library's name whenever the helper's text
  contains the name it is given.
\<close>

theorem main_missing_library:
  assumes "\<not> HAS_AZURE_LIBRARY g \<or> \<not> HAS_PYDO_LIBRARY g"
    and "\<forall>lib. sublist lib (missing_required_lib lib)"
  shows "main missing_required_lib g module w =
           (Some (Fail_json \<lparr>changed = None,
              msg = missing_required_lib
                (if \<not> HAS_AZURE_LIBRARY g then ''azure.core.exceptions'' else ''pydo''),
              one_clicks = None, error = None,
              exception = (if \<not> HAS_AZURE_LIBRARY g then AZURE_LIBRARY_IMPORT_ERROR g
                           else PYDO_LIBRARY_IMPORT_ERROR g)\<rparr>), w) \<and>
         sublist (if \<not> HAS_AZURE_LIBRARY g then ''azure.core.exceptions'' else ''pydo'')
           (missing_required_lib
              (if \<not> HAS_AZURE_LIBRARY g then ''azure.core.exceptions'' else ''pydo''))"
proof (cases "HAS_AZURE_LIBRARY g")
  case False
  then show ?thesis
    using assms(2) by (simp add: main_def)
next
  case True
  with assms(1) have "\<not> HAS_PYDO_LIBRARY g"
    by simp
  with True show ?thesis
    using assms(2) by (simp add: main_def)
qed

theorem main_missing_library_witness:
  "main (\<lambda>lib. ''Failed to import the required Python library ('' @ lib @ '')'')
     (import_libraries Imported (ImportError ''No module named pydo''))
     \<lparr>p_token = Some ''t0'', p_state = Some ''present'', p_type = None\<rparr>
     \<lparr>list_reply = Returns [], events = []\<rparr> =
   (Some (Fail_json \<lparr>changed = None,
      msg = ''Failed to import the required Python library (pydo)'',
      one_clicks = None, error = None, exception = Some ''No module named pydo''\<rparr>),
    \<lparr>list_reply = Returns [], events = []\<rparr>)"
proof -
  have lists: "\<forall>lib. sublist lib ((\<lambda>lib. ''Failed to import the required Python library ('' @ lib @ '')'') lib)"
    by (simp only: sublist_appendI simp_thms)
  have missing: "\<not> HAS_AZURE_LIBRARY (import_libraries Imported (ImportError ''No module named pydo'')) \<or>
      \<not> HAS_PYDO_LIBRARY (import_libraries Imported (ImportError ''No module named pydo''))"
    by (simp add: import_libraries_def)
  from main_missing_library [OF missing lists,
      of "\<lparr>p_token = Some ''t0'', p_state = Some ''present'', p_type = None\<rparr>"
         "\<lparr>list_reply = Returns [], events = []\<rparr>"]
  show ?thesis
    by (simp add: import_libraries_def)
qed

subsection \<open>A response without the key\<close>

text \<open>
  Claim C9. When the decoded response has no key \<open>1_clicks\<close>, \<open>present\<close> ends in
  \<open>fail_json\<close> with the fixed message \<open>Current 1-Click applications not found\<close> and
  without an \<open>error\<close> keyword, which is also its outcome on the same response with an
  empty list under that key.
\<close>

theorem present_missing_key:
  assumes "list_reply w = Returns info"
    and "''1_clicks'' \<notin> fst ` set info"
  shows "fst (present slf w) =
           Fail_json \<lparr>changed = Some False, msg = ''Current 1-Click applications not found'',
             one_clicks = None, error = None, exception = None\<rparr> \<and>
         fst (present slf w) =
           fst (present slf (w\<lparr>list_reply := Returns ((''1_clicks'', []) # info)\<rparr>))"
proof -
  have "dict_get info ''1_clicks'' = None"
    using assms(2) by (simp add: dict_get_def map_of_eq_None_iff)
  then have a: "fst (present slf w) =
           Fail_json \<lparr>changed = Some False, msg = ''Current 1-Click applications not found'',
             one_clicks = None, error = None, exception = None\<rparr>"
    by (simp add: present_Returns [OF assms(1)])
  have "list_reply (w\<lparr>list_reply := Returns ((''1_clicks'', []) # info)\<rparr>) =
          Returns ((''1_clicks'', []) # info)"
    by simp
  from present_Returns [OF this, of slf]
  have "fst (present slf (w\<lparr>list_reply := Returns ((''1_clicks'', []) # info)\<rparr>)) =
          Fail_json \<lparr>changed = Some False, msg = ''Current 1-Click applications not found'',
            one_clicks = None, error = None, exception = None\<rparr>"
    by (simp add: dict_get_def)
  with a show ?thesis by simp
qed

theorem present_missing_key_witness:
  "fst (present
      \<lparr>self_module = \<lparr>p_token = Some ''t0'', p_state = Some ''present'', p_type = Some ''droplet''\<rparr>,
       self_client = \<lparr>client_token = Some ''t0''\<rparr>,
       self_state = Some ''present'', self_type = Some ''droplet''\<rparr>
      \<lparr>list_reply = Returns [(''links'', [])], events = []\<rparr>) =
   Fail_json \<lparr>changed = Some False, msg = ''Current 1-Click applications not found'',
     one_clicks = None, error = None, exception = None\<rparr>"
  using present_missing_key
    [of "\<lparr>list_reply = Returns [(''links'', [])], events = []\<rparr>" "[(''links'', [])]"
      "\<lparr>self_module = \<lparr>p_token = Some ''t0'', p_state = Some ''present'', p_type = Some ''droplet''\<rparr>,
        self_client = \<lparr>client_token = Some ''t0''\<rparr>,
        self_state = Some ''present'', self_type = Some ''droplet''\<rparr>"]
  by simp


subsection \<open>No change is ever reported\<close>

lemma present_changed:
  "fst (present slf w) = Exit_json r \<or> fst (present slf w) = Fail_json r \<Longrightarrow> changed r = Some False"
  unfolding present_def one_clicks_list_def
  by (cases "list_reply w")
     (auto simp add: Let_def split: option.splits if_splits simp del: capitalize.simps)

text \<open>
  Claim C6. For an object as the constructor builds it and for every answer of the list
  call, a catalog or an \<open>HttpResponseError\<close> with its error body, \<open>present\<close> reports a
  result, through \<open>exit_json\<close> or \<open>fail_json\<close>, whose \<open>changed\<close> is false; and no
  result that \<open>present\<close> ever reports, for any object and any world (whatever the list
  call returns or raises), has another value of \<open>changed\<close>.
\<close>

theorem present_changed_false:
  assumes "self_type slf = p_type (self_module slf)"
    and "list_reply w = Returns info \<or>
         list_reply w = Raises err \<and> isinstance err ''HttpResponseError'' \<and>
         err_error err = Some body"
  shows "(\<exists>r. (fst (present slf w) = Exit_json r \<or> fst (present slf w) = Fail_json r) \<and>
              changed r = Some False) \<and>
         (\<forall>slf' w' r. fst (present slf' w') = Exit_json r \<or> fst (present slf' w') = Fail_json r
            \<longrightarrow> changed r = Some False)"
proof
  have reports: "\<exists>r. fst (present slf w) = Exit_json r \<or> fst (present slf w) = Fail_json r"
    using assms(2)
  proof
    assume ret: "list_reply w = Returns info"
    show ?thesis
    proof (cases "dict_get info ''1_clicks''")
      case None
      then show ?thesis
        by (simp add: present_Returns [OF ret])
    next
      case (Some clicks)
      show ?thesis
      proof (cases "p_type (self_module slf)")
        case None
        with Some show ?thesis
          by (simp add: present_Returns [OF ret])
      next
        case (Some click_type)
        with assms(1) have "self_type slf = Some click_type"
          by simp
        with Some \<open>dict_get info ''1_clicks'' = Some clicks\<close> show ?thesis
          by (simp add: present_Returns [OF ret] del: capitalize.simps)
      qed
    qed
  next
    assume "list_reply w = Raises err \<and> isinstance err ''HttpResponseError'' \<and>
         err_error err = Some body"
    then show ?thesis
      by (simp add: present_Raises)
  qed
  then obtain r where r: "fst (present slf w) = Exit_json r \<or> fst (present slf w) = Fail_json r"
    by blast
  from present_changed [OF r] r
  show "\<exists>r. (fst (present slf w) = Exit_json r \<or> fst (present slf w) = Fail_json r) \<and>
              changed r = Some False"
    by blast
next
  show "\<forall>slf' w' r. fst (present slf' w') = Exit_json r \<or> fst (present slf' w') = Fail_json r
            \<longrightarrow> changed r = Some False"
    using present_changed by blast
qed


theorem present_changed_false_witness:
  "\<exists>r. (fst (present
      \<lparr>self_module = \<lparr>p_token = Some ''t0'', p_state = Some ''present'', p_type = Some ''droplet''\<rparr>,
       self_client = \<lparr>client_token = Some ''t0''\<rparr>,
       self_state = Some ''present'', self_type = Some ''droplet''\<rparr>
      \<lparr>list_reply = Returns [(''1_clicks'', [[(''slug'', JStr ''cpanel''), (''type'', JStr ''droplet'')]])],
       events = []\<rparr>) = Exit_json r \<or>
     fst (present
      \<lparr>self_module = \<lparr>p_token = Some ''t0'', p_state = Some ''present'', p_type = Some ''droplet''\<rparr>,
       self_client = \<lparr>client_token = Some ''t0''\<rparr>,
       self_state = Some ''present'', self_type = Some ''droplet''\<rparr>
      \<lparr>list_reply = Returns [(''1_clicks'', [[(''slug'', JStr ''cpanel''), (''type'', JStr ''droplet'')]])],
       events = []\<rparr>) = Fail_json r) \<and> changed r = Some False"
proof -
  have "self_type \<lparr>self_module = \<lparr>p_token = Some ''t0'', p_state = Some ''present'', p_type = Some ''droplet''\<rparr>,
          self_client = \<lparr>client_token = Some ''t0''\<rparr>,
          self_state = Some ''present'', self_type = Some ''droplet''\<rparr> =
        p_type (self_module \<lparr>self_module = \<lparr>p_token = Some ''t0'', p_state = Some ''present'', p_type = Some ''droplet''\<rparr>,
          self_client = \<lparr>client_token = Some ''t0''\<rparr>,
          self_state = Some ''present'', self_type = Some ''droplet''\<rparr>)"
    by simp
  moreover have "list_reply \<lparr>list_reply = Returns [(''1_clicks'', [[(''slug'', JStr ''cpanel''), (''type'', JStr ''droplet'')]])],
        events = []\<rparr> = Returns [(''1_clicks'', [[(''slug'', JStr ''cpanel''), (''type'', JStr ''droplet'')]])] \<or>
      list_reply \<lparr>list_reply = Returns [(''1_clicks'', [[(''slug'', JStr ''cpanel''), (''type'', JStr ''droplet'')]])],
        events = []\<rparr> =
        Raises \<lparr>exc_class = [], exc_bases = [], err_error = None, status_code = 0, reason = []\<rparr> \<and>
      isinstance \<lparr>exc_class = [], exc_bases = [], err_error = None, status_code = 0, reason = []\<rparr>
        ''HttpResponseError'' \<and>
      err_error \<lparr>exc_class = [], exc_bases = [], err_error = None, status_code = 0, reason = []\<rparr> =
        Some \<lparr>message = []\<rparr>"
    by simp
  ultimately show ?thesis
    by (rule present_changed_false [THEN conjunct1])
qed

subsection \<open>The filter\<close>

lemma count_list_filter:
  "count_list (filter P xs) x = (if P x then count_list xs x else 0)"
  by (induction xs) auto

text \<open>
  Claim C10. For every catalog and every filter value, the filtered sequence is a
  subsequence of the catalog, in the catalog's order; it holds the entries whose \<open>type\<close>
  is the filter, each as often as the catalog does, and no others; an entry without a
  \<open>type\<close> key is never in it. It is what \<open>present\<close> reports as \<open>one_clicks\<close> when
  the catalog is not empty and a filter is given.
\<close>

theorem filtered_clicks_subsequence:
  "subseq (filtered_clicks click_type catalog) catalog \<and>
   set (filtered_clicks click_type catalog) =
     {e \<in> set catalog. dict_get e ''type'' = Some (JStr click_type)} \<and>
   (\<forall>e. count_list (filtered_clicks click_type catalog) e =
      (if dict_get e ''type'' = Some (JStr click_type) then count_list catalog e else 0)) \<and>
   (\<forall>e. dict_get e ''type'' = None \<longrightarrow> e \<notin> set (filtered_clicks click_type catalog)) \<and>
   (list_reply w = Returns info \<and> dict_get info ''1_clicks'' = Some catalog \<and> catalog \<noteq> [] \<and>
    click_type \<noteq> [] \<and> p_type (self_module slf) = Some click_type \<and> self_type slf = Some ty
    \<longrightarrow> fst (present slf w) =
          Exit_json \<lparr>changed = Some False,
            msg = ''Current '' @ capitalize ty @ '' 1-Click applications'',
            one_clicks = Some (filtered_clicks click_type catalog),
            error = None, exception = None\<rparr>)"
proof (intro conjI allI impI)
  show "subseq (filtered_clicks click_type catalog) catalog"
    by (simp add: filtered_clicks_def)
  show "set (filtered_clicks click_type catalog) =
     {e \<in> set catalog. dict_get e ''type'' = Some (JStr click_type)}"
    by (simp add: filtered_clicks_def)
  show "count_list (filtered_clicks click_type catalog) e =
      (if dict_get e ''type'' = Some (JStr click_type) then count_list catalog e else 0)" for e
    by (simp only: filtered_clicks_def count_list_filter)
  show "e \<notin> set (filtered_clicks click_type catalog)" if "dict_get e ''type'' = None" for e
    using that by (simp add: filtered_clicks_def)
  show "fst (present slf w) =
          Exit_json \<lparr>changed = Some False,
            msg = ''Current '' @ capitalize ty @ '' 1-Click applications'',
            one_clicks = Some (filtered_clicks click_type catalog),
            error = None, exception = None\<rparr>"
    if h: "list_reply w = Returns info \<and> dict_get info ''1_clicks'' = Some catalog \<and> catalog \<noteq> [] \<and>
    click_type \<noteq> [] \<and> p_type (self_module slf) = Some click_type \<and> self_type slf = Some ty"
  proof -
    from h have r: "list_reply w = Returns info" by simp
    from h show ?thesis
      by (simp add: present_Returns [OF r] del: capitalize.simps)
  qed
qed

theorem filtered_clicks_subsequence_witness:
  "filtered_clicks ''kubernetes''
     [[(''slug'', JStr ''netdata''), (''type'', JStr ''kubernetes'')],
      [(''slug'', JStr ''untyped'')],
      [(''slug'', JStr ''cpanel''), (''type'', JStr ''droplet'')],
      [(''slug'', JStr ''okteto''), (''type'', JStr ''kubernetes'')]] =
   [[(''slug'', JStr ''netdata''), (''type'', JStr ''kubernetes'')],
    [(''slug'', JStr ''okteto''), (''type'', JStr ''kubernetes'')]] \<and>
   [(''slug'', JStr ''untyped'')] \<notin> set (filtered_clicks ''kubernetes''
     [[(''slug'', JStr ''netdata''), (''type'', JStr ''kubernetes'')],
      [(''slug'', JStr ''untyped'')],
      [(''slug'', JStr ''cpanel''), (''type'', JStr ''droplet'')],
      [(''slug'', JStr ''okteto''), (''type'', JStr ''kubernetes'')]]) \<and>
   fst (present
      \<lparr>self_module = \<lparr>p_token = Some ''t0'', p_state = Some ''present'', p_type = Some ''kubernetes''\<rparr>,
       self_client = \<lparr>client_token = Some ''t0''\<rparr>,
       self_state = Some ''present'', self_type = Some ''kubernetes''\<rparr>
      \<lparr>list_reply = Returns [(''1_clicks'',
         [[(''slug'', JStr ''netdata''), (''type'', JStr ''kubernetes'')],
          [(''slug'', JStr ''untyped'')],
          [(''slug'', JStr ''cpanel''), (''type'', JStr ''droplet'')],
          [(''slug'', JStr ''okteto''), (''type'', JStr ''kubernetes'')]])],
       events = []\<rparr>) =
   Exit_json \<lparr>changed = Some False, msg = ''Current Kubernetes 1-Click applications'',
     one_clicks = Some [[(''slug'', JStr ''netdata''), (''type'', JStr ''kubernetes'')],
                        [(''slug'', JStr ''okteto''), (''type'', JStr ''kubernetes'')]],
     error = None, exception = None\<rparr>"
proof -
  let ?catalog = "[[(''slug'', JStr ''netdata''), (''type'', JStr ''kubernetes'')],
      [(''slug'', JStr ''untyped'')],
      [(''slug'', JStr ''cpanel''), (''type'', JStr ''droplet'')],
      [(''slug'', JStr ''okteto''), (''type'', JStr ''kubernetes'')]]"
  let ?slf = "\<lparr>self_module = \<lparr>p_token = Some ''t0'', p_state = Some ''present'', p_type = Some ''kubernetes''\<rparr>,
       self_client = \<lparr>client_token = Some ''t0''\<rparr>,
       self_state = Some ''present'', self_type = Some ''kubernetes''\<rparr>"
  let ?w = "\<lparr>list_reply = Returns [(''1_clicks'', ?catalog)], events = []\<rparr>"
  note t = filtered_clicks_subsequence
    [of "''kubernetes''" ?catalog ?w "[(''1_clicks'', ?catalog)]" ?slf "''kubernetes''"]
  have vals: "filtered_clicks ''kubernetes'' ?catalog =
     [[(''slug'', JStr ''netdata''), (''type'', JStr ''kubernetes'')],
      [(''slug'', JStr ''okteto''), (''type'', JStr ''kubernetes'')]]"
    by (simp add: filtered_clicks_def dict_get_def)
  have untyped: "[(''slug'', JStr ''untyped'')] \<notin> set (filtered_clicks ''kubernetes'' ?catalog)"
    using t by (simp add: dict_get_def del: capitalize.simps)
  have run: "fst (present ?slf ?w) =
     Exit_json \<lparr>changed = Some False, msg = ''Current Kubernetes 1-Click applications'',
       one_clicks = Some (filtered_clicks ''kubernetes'' ?catalog),
       error = None, exception = None\<rparr>"
    using t by (simp add: dict_get_def capitalize_kubernetes del: capitalize.simps)
  from untyped run show ?thesis
    unfolding vals by simp
qed

end
